theory Spec2Isabelle
  imports Main "HOL-Library.Sublist" "HOL-Library.Char_ord"
begin

section \<open>Go string helpers used by internal/cmd/mq.go\<close>

text \<open>
  Go strings are byte sequences; they are modelled as \<open>string\<close> (a list of \<open>char\<close>,
  one \<open>char\<close> per byte). Only the library calls that mq.go makes are modelled.
\<close>

text \<open>\<^verbatim>\<open>strings.HasPrefix(s, prefix)\<close>.\<close>

definition HasPrefix :: "string \<Rightarrow> string \<Rightarrow> bool" where
  "HasPrefix s pre = (take (length pre) s = pre)"

text \<open>
  \<^verbatim>\<open>strings.SplitN(s, sep, n)\<close> for a one-byte separator and \<open>n \<ge> 0\<close> (mq.go calls
  it with \<open>"/"\<close> and \<open>3\<close>): \<open>n = 0\<close> gives no parts, \<open>n = 1\<close> gives the whole string,
  otherwise the string is cut at the first separator and the rest is split into at most
  \<open>n - 1\<close> parts, the last part being the unsplit remainder.
\<close>

fun SplitN :: "string \<Rightarrow> char \<Rightarrow> nat \<Rightarrow> string list" where
  "SplitN s sep 0 = []"
| "SplitN s sep (Suc 0) = [s]"
| "SplitN s sep (Suc (Suc n)) =
     (if sep \<in> set s
      then takeWhile (\<lambda>c. c \<noteq> sep) s # SplitN (tl (dropWhile (\<lambda>c. c \<noteq> sep) s)) sep (Suc n)
      else [s])"

text \<open>\<^verbatim>\<open>strings.Split(s, sep)\<close> for a one-byte separator: every separator cuts.\<close>

fun Split :: "string \<Rightarrow> char \<Rightarrow> string list" where
  "Split [] sep = [[]]"
| "Split (c # cs) sep =
     (if c = sep then [] # Split cs sep
      else (case Split cs sep of [] \<Rightarrow> [[c]] | l # ls \<Rightarrow> (c # l) # ls))"

section \<open>Regular expressions: the fragment of Go's regexp that mq.go compiles\<close>

text \<open>
  The pattern of \<open>parseBranchName\<close> uses literals, character classes given by ranges,
  concatenation, the greedy \<open>+\<close> and the greedy \<open>?\<close>. \<open>ms r s\<close> lists, in the order a
  backtracking matcher tries them (greedy alternatives first), the remainders of \<open>s\<close>
  after each way \<open>r\<close> can match a prefix of \<open>s\<close>; the head of the list is the match Go's
  leftmost-first semantics selects at that starting position. An iteration of \<open>+\<close> that
  consumes nothing is not repeated.
\<close>

datatype regexp =
    Lit char
  | Class "(char \<times> char) list"
  | Seq regexp regexp
  | Plus regexp
  | Opt regexp

definition in_class :: "(char \<times> char) list \<Rightarrow> char \<Rightarrow> bool" where
  "in_class rs c = (\<exists>(lo, hi) \<in> set rs. lo \<le> c \<and> c \<le> hi)"

fun ms :: "regexp \<Rightarrow> string \<Rightarrow> string list" where
  "ms (Lit c) s = (case s of [] \<Rightarrow> [] | x # xs \<Rightarrow> if x = c then [xs] else [])"
| "ms (Class rs) s = (case s of [] \<Rightarrow> [] | x # xs \<Rightarrow> if in_class rs x then [xs] else [])"
| "ms (Seq r1 r2) s = concat (map (ms r2) (ms r1 s))"
| "ms (Opt r) s = ms r s @ [s]"
| "ms (Plus r) s =
     concat (map (\<lambda>s'. (if length s' < length s then ms (Plus r) s' else []) @ [s']) (ms r s))"

text \<open>
  \<^verbatim>\<open>re.FindString(s)\<close>: the match at the leftmost starting position that has one, or
  \<open>None\<close> when no position has a match.
\<close>

fun FindString :: "regexp \<Rightarrow> string \<Rightarrow> string option" where
  "FindString r [] = (case ms r [] of [] \<Rightarrow> None | s' # _ \<Rightarrow> Some [])"
| "FindString r (c # cs) =
     (case ms r (c # cs) of
        [] \<Rightarrow> FindString r cs
      | s' # _ \<Rightarrow> Some (take (length (c # cs) - length s') (c # cs)))"

text \<open>
  The pattern \<^verbatim>\<open>([a-z]+-[a-z0-9]+(?:\.[0-9]+)?)\<close>. Its only capturing group encloses
  the whole pattern, so \<^verbatim>\<open>FindStringSubmatch\<close> returns the match twice (the whole match
  and group 1), or nil (here the empty list) when there is no match.
\<close>

definition issuePattern :: regexp where
  "issuePattern =
     Seq (Plus (Class [(CHR ''a'', CHR ''z'')]))
       (Seq (Lit (CHR ''-''))
         (Seq (Plus (Class [(CHR ''a'', CHR ''z''), (CHR ''0'', CHR ''9'')]))
              (Opt (Seq (Lit (CHR ''.'')) (Plus (Class [(CHR ''0'', CHR ''9'')]))))))"

definition FindStringSubmatch :: "regexp \<Rightarrow> string \<Rightarrow> string list" where
  "FindStringSubmatch r s = (case FindString r s of None \<Rightarrow> [] | Some m \<Rightarrow> [m, m])"

section \<open>The branch parser\<close>

record branchInfo =
  Branch :: string
  Issue :: string
  Worker :: string

definition parseBranchName :: "string \<Rightarrow> branchInfo" where
  "parseBranchName branch =
     (let info = \<lparr>Branch = branch, Issue = [], Worker = []\<rparr>;
          parts = SplitN branch (CHR ''/'') 3
      in if HasPrefix branch ''polecat/'' \<and> length parts = 3
         then info\<lparr>Worker := parts ! 1, Issue := parts ! 2\<rparr>
         else (let matches = FindStringSubmatch issuePattern branch
               in if length matches > 1 then info\<lparr>Issue := matches ! 1\<rparr> else info))"

text \<open>
  What the pattern denotes, independently of the matcher: \<open>matches r m\<close> holds when the
  whole string \<open>m\<close> is in the language of \<open>r\<close>.
\<close>

inductive matches :: "regexp \<Rightarrow> string \<Rightarrow> bool" where
  m_Lit: "matches (Lit c) [c]"
| m_Class: "in_class rs c \<Longrightarrow> matches (Class rs) [c]"
| m_Seq: "matches r1 a \<Longrightarrow> matches r2 b \<Longrightarrow> matches (Seq r1 r2) (a @ b)"
| m_Opt_none: "matches (Opt r) []"
| m_Opt_some: "matches r a \<Longrightarrow> matches (Opt r) a"
| m_Plus_one: "matches r a \<Longrightarrow> matches (Plus r) a"
| m_Plus_more: "matches r a \<Longrightarrow> matches (Plus r) b \<Longrightarrow> matches (Plus r) (a @ b)"

inductive_cases matches_SeqE: "matches (Seq r1 r2) m"
inductive_cases matches_LitE: "matches (Lit c) m"

text \<open>
  The two shapes of a branch name the parser distinguishes: the
  \<open>polecat/<worker>/<issue>\<close> form (the guard of the first branch of \<open>parseBranchName\<close>),
  and a branch with an embedded issue-like token (some contiguous part of it is in the
  language of the issue pattern).
\<close>

definition polecat_form :: "string \<Rightarrow> bool" where
  "polecat_form branch =
     (HasPrefix branch ''polecat/'' \<and> length (SplitN branch (CHR ''/'') 3) = 3)"

definition has_issue_token :: "string \<Rightarrow> bool" where
  "has_issue_token branch = (\<exists>t. sublist t branch \<and> matches issuePattern t)"

section \<open>The issue store as mq.go sees it (package beads)\<close>

text \<open>
  Modelled from the spec: the declaration of \<^verbatim>\<open>beads.Issue\<close> is not part of the sources.
  The record holds the fields mq.go reads (\<open>ID\<close>, \<open>Status\<close>, \<open>Priority\<close>, \<open>Type\<close>,
  \<open>CreatedAt\<close>, \<open>BlockedBy\<close>, \<open>BlockedByCount\<close>) and the two it writes through
  \<^verbatim>\<open>CreateOptions\<close> (\<open>Title\<close>, \<open>Description\<close>); spec section 6 lists the same fields.
  Go's \<open>int\<close> is modelled as \<open>int\<close>: the only arithmetic on it is a comparison with 0.
\<close>

record Issue =
  ID :: string
  Title :: string
  Description :: string
  Status :: string
  Priority :: int
  Type :: string
  CreatedAt :: string
  BlockedBy :: "string list"
  BlockedByCount :: int

text \<open>\<^verbatim>\<open>beads.CreateOptions\<close>, with the four fields \<open>runMqSubmit\<close> sets.\<close>

record CreateOptions =
  Title_opt :: string
  Type_opt :: string
  Priority_opt :: int
  Description_opt :: string

text \<open>\<^verbatim>\<open>beads.ListOptions\<close>, with the two fields \<open>runMQList\<close> sets.\<close>

record ListOptions =
  Type_list :: string
  Status_list :: string

text \<open>\<^verbatim>\<open>beads.MRFields\<close>, with the five fields \<open>runMqSubmit\<close> sets.\<close>

record MRFields =
  Branch_mr :: string
  Target_mr :: string
  SourceIssue_mr :: string
  Worker_mr :: string
  Rig_mr :: string

text \<open>
  Errors. \<open>Errorf msg\<close> is \<^verbatim>\<open>fmt.Errorf\<close> with a message that wraps nothing,
  \<open>Wrap msg e\<close> is \<^verbatim>\<open>fmt.Errorf(msg + ": %w", e)\<close>; \<open>ErrMRNotFound\<close> and
  \<open>ErrMRNotFailed\<close> are the sentinel errors of package refinery that mq.go compares
  against; \<open>Failure msg\<close> is any other error a collaborator returns.
\<close>

datatype error =
    Errorf string
  | Wrap string error
  | ErrMRNotFound
  | ErrMRNotFailed
  | Failure string

section \<open>The field codec (package beads)\<close>

text \<open>\<^verbatim>\<open>strings.Join(elems, sep)\<close>.\<close>

fun Join :: "string list \<Rightarrow> string \<Rightarrow> string" where
  "Join [] sep = []"
| "Join [x] sep = x"
| "Join (x # y # ys) sep = x @ sep @ Join (y # ys) sep"

text \<open>
  The type marker line that distinguishes a merge request from any other issue
  (\<open>runMqSubmit\<close> writes it, mq.go 323).
\<close>

definition marker_line :: string where
  "marker_line = ''type: merge-request''"

text \<open>
  Modelled from the spec: \<^verbatim>\<open>beads.FormatMRFields\<close> is not part of the sources. Spec 4.1
  (Encode): one line per present field, key names fixed and lower-case, values taken
  verbatim, empty fields omitted. Spec 6 (MR text encoding): the lines are
  \<open>branch: <value>\<close>, \<open>target: <value>\<close>, \<open>source_issue: <value>\<close>, \<open>worker: <value>\<close>,
  \<open>rig: <value>\<close>. The marker line \<open>type: merge-request\<close> is not written here: the
  caller (\<open>runMqSubmit\<close>) puts it in front.
\<close>

definition field_line :: "string \<Rightarrow> string \<Rightarrow> string list" where
  "field_line key v = (if v = [] then [] else [key @ '': '' @ v])"

definition field_lines :: "MRFields \<Rightarrow> string list" where
  "field_lines f =
     field_line ''branch'' (Branch_mr f) @ field_line ''target'' (Target_mr f)
     @ field_line ''source_issue'' (SourceIssue_mr f) @ field_line ''worker'' (Worker_mr f)
     @ field_line ''rig'' (Rig_mr f)"

definition FormatMRFields :: "MRFields \<Rightarrow> string" where
  "FormatMRFields f = Join (field_lines f) [CHR 0x0A]"

text \<open>
  Modelled from the spec: \<^verbatim>\<open>beads.ParseMRFields\<close> is not part of the sources. Spec 4.1
  (Decode): scans the issue's stored text for recognized keys; absent (\<open>None\<close>) if the
  marker line \<open>type: merge-request\<close> is missing; unknown keys are ignored; a missing key
  yields an empty field; it never fails and reads nothing but the stored text.
\<close>

definition scan_line :: "MRFields \<Rightarrow> string \<Rightarrow> MRFields" where
  "scan_line f l =
     (if HasPrefix l ''branch: '' then f\<lparr>Branch_mr := drop (length ''branch: '') l\<rparr>
      else if HasPrefix l ''target: '' then f\<lparr>Target_mr := drop (length ''target: '') l\<rparr>
      else if HasPrefix l ''source_issue: ''
        then f\<lparr>SourceIssue_mr := drop (length ''source_issue: '') l\<rparr>
      else if HasPrefix l ''worker: '' then f\<lparr>Worker_mr := drop (length ''worker: '') l\<rparr>
      else if HasPrefix l ''rig: '' then f\<lparr>Rig_mr := drop (length ''rig: '') l\<rparr>
      else f)"

definition no_fields :: MRFields where
  "no_fields = \<lparr>Branch_mr = [], Target_mr = [], SourceIssue_mr = [], Worker_mr = [], Rig_mr = []\<rparr>"

definition ParseMRFields :: "Issue \<Rightarrow> MRFields option" where
  "ParseMRFields issue =
     (let ls = Split (Description issue) (CHR 0x0A)
      in if marker_line \<in> set ls then Some (foldl scan_line no_fields ls) else None)"

text \<open>The two sides of the round-trip contract, as the commands use them.\<close>

definition Encode :: "MRFields \<Rightarrow> string" where
  "Encode f = marker_line @ [CHR 0x0A] @ FormatMRFields f"

definition single_line :: "string \<Rightarrow> bool" where
  "single_line v = (CHR 0x0A \<notin> set v)"

definition single_line_fields :: "MRFields \<Rightarrow> bool" where
  "single_line_fields f =
     (single_line (Branch_mr f) \<and> single_line (Target_mr f) \<and> single_line (SourceIssue_mr f)
      \<and> single_line (Worker_mr f) \<and> single_line (Rig_mr f))"

section \<open>gt mq submit\<close>

text \<open>The flags of the submit command (mq.go 25-28); \<open>--priority\<close> defaults to \<open>-1\<close>.\<close>

record SubmitFlags =
  mqSubmitBranch :: string
  mqSubmitIssue :: string
  mqSubmitEpic :: string
  mqSubmitPriority :: int

text \<open>
  The collaborators \<open>runMqSubmit\<close> calls, none of which is part of the sources; each is a
  parameter. \<open>'st\<close> is the state of the issue store: \<open>beads_Show\<close> reads it,
  \<open>beads_Create\<close> may change it. \<open>findCurrentRig\<close> (mq.go 197-232) is taken as its
  result, the rig name or an error: it consists of calls into the file system, the
  configuration loader and the rig manager.
\<close>

record 'st SubmitEnv =
  FindFromCwdOrError :: "error + string"
  findCurrentRig :: "string \<Rightarrow> error + string"
  Getwd :: "error + string"
  CurrentBranch :: "error + string"
  beads_Show :: "string \<Rightarrow> 'st \<Rightarrow> error + Issue"
  beads_Create :: "CreateOptions \<Rightarrow> 'st \<Rightarrow> (error + Issue) \<times> 'st"

text \<open>
  What a successful run has built and received: the values of the local variables
  \<open>mrFields\<close> (mq.go 309-315) and \<open>createOpts\<close> (325-330), which it sent to the store,
  and the \<open>issue\<close> that \<open>bd.Create\<close> returned (332). The text printed on success
  (338-346) shows fields of these.
\<close>

record SubmitResult =
  sent_fields :: MRFields
  sent_opts :: CreateOptions
  created :: Issue

text \<open>
  \<open>runMqSubmit\<close> (mq.go 234-349), in two parts. \<open>submitResolved\<close> is the function from
  line 263 on, for the rig name and the branch that lines 235-261 have determined: the
  validation, the construction of the merge request and the call of \<open>bd.Create\<close>.
  \<open>runMqSubmit\<close> is lines 235-261 (workspace, rig, working directory, branch) followed by
  \<open>submitResolved\<close>. The result pairs the command's error or success with the state of
  the issue store afterwards; \<open>Inl\<close> is a non-nil error returned to cobra, that is, a
  non-zero exit.
\<close>

definition submitResolved ::
  "SubmitFlags \<Rightarrow> 'st SubmitEnv \<Rightarrow> string \<Rightarrow> string \<Rightarrow> 'st
     \<Rightarrow> (error + SubmitResult) \<times> 'st" where
  "submitResolved fl env rigName branch st =
     (if branch = ''main'' \<or> branch = ''master''
      then (Inl (Errorf ''cannot submit main/master branch to merge queue''), st)
      else
        let info = parseBranchName branch;
            issueID = (if mqSubmitIssue fl = [] then Issue info else mqSubmitIssue fl);
            worker = Worker info
        in if issueID = []
           then (Inl (Errorf (''cannot determine source issue from branch '' @ [CHR 0x27]
                    @ branch @ [CHR 0x27] @ ''; use --issue to specify'')), st)
           else
             let target = (if mqSubmitEpic fl = [] then ''main''
                           else ''integration/'' @ mqSubmitEpic fl);
                 priority =
                   (if mqSubmitPriority fl \<ge> 0 then mqSubmitPriority fl
                    else (case beads_Show env issueID st of
                            Inl err \<Rightarrow> 2
                          | Inr sourceIssue \<Rightarrow> Priority sourceIssue));
                 title = ''Merge: '' @ issueID;
                 mrFields = \<lparr>Branch_mr = branch, Target_mr = target,
                             SourceIssue_mr = issueID, Worker_mr = worker,
                             Rig_mr = rigName\<rparr>;
                 description = marker_line @ [CHR 0x0A] @ FormatMRFields mrFields;
                 createOpts = \<lparr>Title_opt = title, Type_opt = ''task'',
                               Priority_opt = priority, Description_opt = description\<rparr>
             in (case beads_Create env createOpts st of
                   (Inl err, st') \<Rightarrow> (Inl (Wrap ''creating merge request'' err), st')
                 | (Inr issue, st') \<Rightarrow>
                     (Inr \<lparr>sent_fields = mrFields, sent_opts = createOpts, created = issue\<rparr>,
                      st')))"

definition runMqSubmit ::
  "SubmitFlags \<Rightarrow> 'st SubmitEnv \<Rightarrow> 'st \<Rightarrow> (error + SubmitResult) \<times> 'st" where
  "runMqSubmit fl env st =
     (case FindFromCwdOrError env of
        Inl err \<Rightarrow> (Inl (Wrap ''not in a Gas Town workspace'' err), st)
      | Inr townRoot \<Rightarrow>
     (case findCurrentRig env townRoot of
        Inl err \<Rightarrow> (Inl err, st)
      | Inr rigName \<Rightarrow>
     (case Getwd env of
        Inl err \<Rightarrow> (Inl (Wrap ''getting current directory'' err), st)
      | Inr cwd \<Rightarrow>
     (if mqSubmitBranch fl = []
      then (case CurrentBranch env of
              Inl err \<Rightarrow> (Inl (Wrap ''getting current branch'' err), st)
            | Inr branch \<Rightarrow> submitResolved fl env rigName branch st)
      else submitResolved fl env rigName (mqSubmitBranch fl) st))))"

section \<open>gt mq list\<close>

record ListFlags =
  mqListReady :: bool
  mqListStatus :: string
  mqListWorker :: string
  mqListEpic :: string
  mqListJSON :: bool

text \<open>
  What \<open>runMQList\<close> calls, as parameters: the store queries \<open>beads_Ready\<close> (the issues
  the store reports as having no blockers) and \<open>beads_List\<close>, and the library function
  \<^verbatim>\<open>strings.EqualFold\<close> (equality under Unicode case folding).
\<close>

record 'st ListEnv =
  beads_Ready :: "'st \<Rightarrow> error + Issue list"
  beads_List :: "ListOptions \<Rightarrow> 'st \<Rightarrow> error + Issue list"
  EqualFold :: "string \<Rightarrow> string \<Rightarrow> bool"

text \<open>
  The body of the filter loop (mq.go 442-470): \<open>True\<close> when the issue is appended to
  \<open>filtered\<close>, \<open>False\<close> when the loop continues without it.
\<close>

definition keeps :: "'st ListEnv \<Rightarrow> ListFlags \<Rightarrow> Issue \<Rightarrow> bool" where
  "keeps env fl issue =
     (let fields = ParseMRFields issue;
          worker = (case fields of None \<Rightarrow> [] | Some f \<Rightarrow> Worker_mr f);
          target = (case fields of None \<Rightarrow> [] | Some f \<Rightarrow> Target_mr f)
      in if mqListWorker fl \<noteq> [] \<and> \<not> EqualFold env worker (mqListWorker fl) then False
         else if mqListEpic fl \<noteq> [] \<and> target \<noteq> ''integration/'' @ mqListEpic fl then False
         else True)"

text \<open>The display status (mq.go 494-502).\<close>

definition displayStatus :: "Issue \<Rightarrow> string" where
  "displayStatus issue =
     (if Status issue = ''open''
      then (if length (BlockedBy issue) > 0 \<or> BlockedByCount issue > 0
            then ''blocked'' else ''ready'')
      else Status issue)"

text \<open>
  One printed row (mq.go 491-549): the identifier cut to 12 bytes, the display status,
  the priority, the branch cut to 27 bytes and \<open>...\<close> when longer than 30, the worker, and
  the first blocker when the row is blocked and the blocker list is not empty. Styling
  and the age column (which reads the wall clock) are left out.
\<close>

record Row =
  row_id :: string
  row_status :: string
  row_priority :: int
  row_branch :: string
  row_worker :: string
  row_waiting_on :: "string option"

definition listRow :: "Issue \<Rightarrow> Row" where
  "listRow issue =
     (let fields = ParseMRFields issue;
          status = displayStatus issue;
          branch = (case fields of None \<Rightarrow> [] | Some f \<Rightarrow> Branch_mr f);
          worker = (case fields of None \<Rightarrow> [] | Some f \<Rightarrow> Worker_mr f)
      in \<lparr>row_id = (if length (ID issue) > 12 then take 12 (ID issue) else ID issue),
          row_status = status,
          row_priority = Priority issue,
          row_branch = (if length branch > 30 then take 27 branch @ ''...'' else branch),
          row_worker = worker,
          row_waiting_on =
            (if status = ''blocked'' \<and> length (BlockedBy issue) > 0
             then Some (hd (BlockedBy issue)) else None)\<rparr>)"

datatype ListOutput = JSON "Issue list" | Table "Row list"

text \<open>
  \<open>runMQList\<close> (mq.go 395-552), in two parts. \<open>listFiltered\<close> is lines 396-470: the
  query (the ready query narrowed to the type \<open>merge-request\<close>, or the list query) and the
  worker and epic filters, giving the local variable \<open>filtered\<close>. \<open>runMQList\<close> prints it,
  as JSON or as a table; \<open>Table []\<close> is the output \<open>(empty)\<close>. \<open>getRefineryManager\<close> is not
  part of the sources and is a parameter; only its error matters here.
\<close>

definition listFiltered ::
  "(string \<Rightarrow> error + string) \<Rightarrow> ListFlags \<Rightarrow> string \<Rightarrow> 'st ListEnv \<Rightarrow> 'st
     \<Rightarrow> error + Issue list" where
  "listFiltered getRefineryManager fl rigName env st =
     (case getRefineryManager rigName of
        Inl err \<Rightarrow> Inl err
      | Inr r \<Rightarrow>
          let opts = \<lparr>Type_list = ''merge-request'',
                      Status_list = (if mqListStatus fl \<noteq> [] then mqListStatus fl
                                     else if \<not> mqListReady fl then ''open'' else [])\<rparr>
          in (case (if mqListReady fl
                    then (case beads_Ready env st of
                            Inl err \<Rightarrow> Inl (Wrap ''querying ready MRs'' err)
                          | Inr allReady \<Rightarrow>
                              Inr (filter (\<lambda>issue. Type issue = ''merge-request'') allReady))
                    else (case beads_List env opts st of
                            Inl err \<Rightarrow> Inl (Wrap ''querying merge queue'' err)
                          | Inr issues \<Rightarrow> Inr issues)) of
                Inl err \<Rightarrow> Inl err
              | Inr issues \<Rightarrow> Inr (filter (keeps env fl) issues)))"

definition runMQList ::
  "(string \<Rightarrow> error + string) \<Rightarrow> ListFlags \<Rightarrow> string \<Rightarrow> 'st ListEnv \<Rightarrow> 'st
     \<Rightarrow> error + ListOutput" where
  "runMQList getRefineryManager fl rigName env st =
     (case listFiltered getRefineryManager fl rigName env st of
        Inl err \<Rightarrow> Inl err
      | Inr filtered \<Rightarrow>
          if mqListJSON fl then Inr (JSON filtered) else Inr (Table (map listRow filtered)))"

section \<open>An example rig, for evaluating the commands\<close>

text \<open>
  A store that keeps its issues in a list. \<open>ex_Create\<close> persists what it is given
  (title, type, priority, description) as a new open issue without blockers;
  \<open>ex_Show\<close> looks an identifier up; \<open>ex_Ready\<close> reports the open issues without
  blockers; \<open>ex_List\<close> filters by type and status.
\<close>

definition ex_Show :: "string \<Rightarrow> Issue list \<Rightarrow> error + Issue" where
  "ex_Show i st =
     (case find (\<lambda>x. ID x = i) st of None \<Rightarrow> Inl (Failure ''issue not found'') | Some x \<Rightarrow> Inr x)"

definition ex_Create :: "CreateOptions \<Rightarrow> Issue list \<Rightarrow> (error + Issue) \<times> Issue list" where
  "ex_Create opts st =
     (let new = \<lparr>ID = ''gt-mr-1'', Title = Title_opt opts, Description = Description_opt opts,
                 Status = ''open'', Priority = Priority_opt opts, Type = Type_opt opts,
                 CreatedAt = ''2025-01-01T00:00:00Z'', BlockedBy = [], BlockedByCount = 0\<rparr>
      in (Inr new, st @ [new]))"

definition ex_Ready :: "Issue list \<Rightarrow> error + Issue list" where
  "ex_Ready st =
     Inr (filter (\<lambda>x. Status x = ''open'' \<and> BlockedBy x = [] \<and> BlockedByCount x = 0) st)"

definition ex_List :: "ListOptions \<Rightarrow> Issue list \<Rightarrow> error + Issue list" where
  "ex_List opts st =
     Inr (filter (\<lambda>x. Type x = Type_list opts \<and> Status x = Status_list opts) st)"

definition ex_env :: "Issue list SubmitEnv" where
  "ex_env =
     \<lparr>FindFromCwdOrError = Inr ''/town'',
      findCurrentRig = (\<lambda>root. Inr ''gastown''),
      Getwd = Inr ''/town/gastown/polecats/Toast'',
      CurrentBranch = Inr ''polecat/Toast/gt-42'',
      beads_Show = ex_Show,
      beads_Create = ex_Create\<rparr>"

text \<open>Case folding of the ASCII letters, for \<open>EqualFold\<close> on ASCII names.\<close>

definition toLower :: "char \<Rightarrow> char" where
  "toLower c =
     (if CHR ''A'' \<le> c \<and> c \<le> CHR ''Z'' then char_of (of_char c + (32::nat)) else c)"

definition ex_EqualFold :: "string \<Rightarrow> string \<Rightarrow> bool" where
  "ex_EqualFold s t = (map toLower s = map toLower t)"

definition ex_list_env :: "Issue list ListEnv" where
  "ex_list_env = \<lparr>beads_Ready = ex_Ready, beads_List = ex_List, EqualFold = ex_EqualFold\<rparr>"

definition ex_getRefineryManager :: "string \<Rightarrow> error + string" where
  "ex_getRefineryManager rigName = Inr (''/town/'' @ rigName)"

text \<open>The source issue \<open>gt-42\<close>, priority 3, being worked on.\<close>

definition ex_source :: Issue where
  "ex_source =
     \<lparr>ID = ''gt-42'', Title = ''Toast the bread'', Description = [], Status = ''in_progress'',
      Priority = 3, Type = ''task'', CreatedAt = ''2024-12-31T00:00:00Z'', BlockedBy = [],
      BlockedByCount = 0\<rparr>"

text \<open>\<open>gt mq submit --epic gt-epic1\<close> on branch \<open>polecat/Toast/gt-42\<close>.\<close>

definition ex_flags :: SubmitFlags where
  "ex_flags =
     \<lparr>mqSubmitBranch = [], mqSubmitIssue = [], mqSubmitEpic = ''gt-epic1'',
      mqSubmitPriority = - 1\<rparr>"

definition ex_fields :: MRFields where
  "ex_fields =
     \<lparr>Branch_mr = ''polecat/Toast/gt-42'', Target_mr = ''integration/gt-epic1'',
      SourceIssue_mr = ''gt-42'', Worker_mr = ''Toast'', Rig_mr = ''gastown''\<rparr>"

definition ex_opts :: "int \<Rightarrow> CreateOptions" where
  "ex_opts p =
     \<lparr>Title_opt = ''Merge: gt-42'', Type_opt = ''task'', Priority_opt = p,
      Description_opt = Encode ex_fields\<rparr>"

definition ex_mr :: "int \<Rightarrow> Issue" where
  "ex_mr p =
     \<lparr>ID = ''gt-mr-1'', Title = ''Merge: gt-42'', Description = Encode ex_fields,
      Status = ''open'', Priority = p, Type = ''task'', CreatedAt = ''2025-01-01T00:00:00Z'',
      BlockedBy = [], BlockedByCount = 0\<rparr>"

text \<open>\<open>gt mq list gastown --ready\<close>.\<close>

definition ex_ready_flags :: ListFlags where
  "ex_ready_flags =
     \<lparr>mqListReady = True, mqListStatus = [], mqListWorker = [], mqListEpic = [],
      mqListJSON = False\<rparr>"

text \<open>The same submission with \<open>--priority 0\<close>, with \<open>--branch main\<close>, with
  \<open>--branch feature/random\<close>, and on the current branch \<open>master\<close>.\<close>

definition ex_flags_p0 :: SubmitFlags where
  "ex_flags_p0 = ex_flags\<lparr>mqSubmitPriority := 0\<rparr>"





text \<open>An open issue whose blocker list is empty while its blocker count is 1.\<close>

definition ex_counted :: Issue where
  "ex_counted = (ex_mr 2)\<lparr>BlockedByCount := 1\<rparr>"

text \<open>An open issue with one listed blocker.\<close>

definition ex_blocked :: Issue where
  "ex_blocked = (ex_mr 2)\<lparr>BlockedBy := [''gt-mr-0'']\<rparr>"

section \<open>The refinery manager (package refinery)\<close>

text \<open>
  Modelled from the spec: package refinery (\<^verbatim>\<open>MergeRequest\<close>, \<^verbatim>\<open>Manager.GetMR\<close>,
  \<^verbatim>\<open>Manager.Retry\<close>, \<^verbatim>\<open>Manager.RejectMR\<close>) is not part of the sources; mq.go only calls
  it. The record is the data model of spec section 3; \<open>Audit_req\<close> is the audit trail
  in which a rejection records its reason (spec 4.4).
\<close>

datatype MRStatus = MROpen | MRInProgress | MRClosed | MRRejected

fun status_string :: "MRStatus \<Rightarrow> string" where
  "status_string MROpen = ''open''"
| "status_string MRInProgress = ''in_progress''"
| "status_string MRClosed = ''closed''"
| "status_string MRRejected = ''rejected''"

record MergeRequest =
  ID_req :: string
  Branch_req :: string
  Target_req :: string
  IssueID_req :: string
  Worker_req :: string
  Rig_req :: string
  Priority_req :: int
  Status_req :: MRStatus
  BlockedBy_req :: "string list"
  Error_req :: string
  CreatedAt_req :: string
  Audit_req :: "string list"

text \<open>
  Modelled from the spec: the state the manager works on. \<open>queue\<close> holds the merge
  requests; \<open>tracker\<close> is the status of every issue of the issue tracker, by identifier
  (the source issues live there); \<open>mail_log\<close> lists the dispatches attempted through the
  mail collaborator, as (address, subject, body), in order; \<open>mail_errors\<close> is where a
  failed notification is reported.
\<close>

record Manager =
  queue :: "MergeRequest list"
  tracker :: "string \<Rightarrow> string option"
  mail_log :: "(string \<times> string \<times> string) list"
  mail_errors :: "error list"

text \<open>
  Modelled from the spec: the collaborators of the manager, as parameters. \<open>Send\<close> is
  the mail collaborator's \<open>Send(address, subject, body)\<close> (spec 6), \<open>None\<close> when the
  dispatch succeeded; \<open>notice\<close> gives subject and body of a rejection notice, which the
  spec does not fix; \<open>ProcessMR\<close> is one synchronous merge attempt, a black box (spec 9).
\<close>

record RefineryEnv =
  Send :: "string \<Rightarrow> string \<Rightarrow> string \<Rightarrow> error option"
  notice :: "MergeRequest \<Rightarrow> string \<Rightarrow> string \<times> string"
  ProcessMR :: "MergeRequest \<Rightarrow> Manager \<Rightarrow> error option \<times> Manager"

text \<open>
  The mail address of a worker, \<open><rig>/polecats/<name>\<close>, as
  templates/polecat-CLAUDE.md states it.
\<close>

definition worker_address :: "MergeRequest \<Rightarrow> string" where
  "worker_address mr = Rig_req mr @ ''/polecats/'' @ Worker_req mr"

text \<open>Modelled from the spec: \<open>GetMR(mrID)\<close> fails with \<open>NotFound\<close> if absent (spec 4.4).\<close>

definition GetMR :: "string \<Rightarrow> Manager \<Rightarrow> error + MergeRequest" where
  "GetMR mrID m =
     (case find (\<lambda>mr. ID_req mr = mrID) (queue m) of
        None \<Rightarrow> Inl ErrMRNotFound
      | Some mr \<Rightarrow> Inr mr)"

text \<open>Writing a changed record back: it replaces the record with the same identifier.\<close>

definition putMR :: "MergeRequest \<Rightarrow> Manager \<Rightarrow> Manager" where
  "putMR mr m = m\<lparr>queue := map (\<lambda>x. if ID_req x = ID_req mr then mr else x) (queue m)\<rparr>"

text \<open>
  Modelled from the spec: \<open>Retry(mrID, now)\<close> (spec 4.4) fails with \<open>NotFound\<close> if no such
  MR exists and with \<open>NotFailed\<close> if the stored status is not \<open>open\<close> with a non-empty
  \<open>error\<close>; on success it clears \<open>error\<close>, the status stays \<open>open\<close>, and with \<open>now\<close> the
  engine processes that MR at once and reports the outcome of the attempt.
\<close>

definition Retry :: "RefineryEnv \<Rightarrow> string \<Rightarrow> bool \<Rightarrow> Manager \<Rightarrow> error option \<times> Manager" where
  "Retry env mrID now m =
     (case GetMR mrID m of
        Inl err \<Rightarrow> (Some err, m)
      | Inr mr \<Rightarrow>
          if Status_req mr = MROpen \<and> Error_req mr \<noteq> []
          then (let mr' = mr\<lparr>Error_req := []\<rparr>; m' = putMR mr' m
                in if now then ProcessMR env mr' m' else (None, m'))
          else (Some ErrMRNotFailed, m))"

text \<open>
  Modelled from the spec: \<open>RejectMR(idOrBranchMatch, reason, notify)\<close> (spec 4.4)
  resolves the MR by identifier or by exact branch-name match and fails with
  \<open>NotFound\<close> if there is none; it sets the status to \<open>rejected\<close> and records the reason
  in the audit trail, not in \<open>error\<close>; it never touches the source issue; with \<open>notify\<close>
  it dispatches a notification to the MR's worker, and a failure of the dispatch is
  reported separately and does not undo the rejection.
\<close>

definition FindMR :: "string \<Rightarrow> Manager \<Rightarrow> MergeRequest option" where
  "FindMR idOrBranch m =
     (case find (\<lambda>mr. ID_req mr = idOrBranch) (queue m) of
        Some mr \<Rightarrow> Some mr
      | None \<Rightarrow> find (\<lambda>mr. Branch_req mr = idOrBranch) (queue m))"

definition RejectMR ::
  "RefineryEnv \<Rightarrow> string \<Rightarrow> string \<Rightarrow> bool \<Rightarrow> Manager \<Rightarrow> (error + MergeRequest) \<times> Manager"
  where
  "RejectMR env idOrBranch reason notify m =
     (case FindMR idOrBranch m of
        None \<Rightarrow> (Inl ErrMRNotFound, m)
      | Some mr \<Rightarrow>
          let mr' = mr\<lparr>Status_req := MRRejected, Audit_req := Audit_req mr @ [reason]\<rparr>;
              m' = putMR mr' m
          in if notify
             then (let subject = fst (notice env mr' reason);
                       body = snd (notice env mr' reason);
                       sent = Send env (worker_address mr') subject body
                   in (Inr mr',
                       m'\<lparr>mail_log := mail_log m' @ [(worker_address mr', subject, body)],
                          mail_errors := mail_errors m'
                            @ (case sent of None \<Rightarrow> [] | Some err \<Rightarrow> [err])\<rparr>))
             else (Inr mr', m'))"

section \<open>gt mq retry and gt mq reject\<close>

text \<open>
  \<open>runMQRetry\<close> (mq.go 351-393) for the arguments \<open>rigName\<close> and \<open>mrID\<close> (cobra admits
  exactly two) and the flag \<open>--now\<close>. The result is the error returned, \<open>None\<close> for nil,
  and the state of the manager afterwards; what is printed is left out.
\<close>

definition runMQRetry ::
  "(string \<Rightarrow> error + string) \<Rightarrow> RefineryEnv \<Rightarrow> bool \<Rightarrow> string \<Rightarrow> string \<Rightarrow> Manager
     \<Rightarrow> error option \<times> Manager" where
  "runMQRetry getRefineryManager env mqRetryNow rigName mrID m =
     (case getRefineryManager rigName of
        Inl err \<Rightarrow> (Some err, m)
      | Inr mgr \<Rightarrow>
     (case GetMR mrID m of
        Inl err \<Rightarrow>
          if err = ErrMRNotFound
          then (Some (Errorf (''merge request '' @ [CHR 0x27] @ mrID @ [CHR 0x27]
                  @ '' not found in rig '' @ [CHR 0x27] @ rigName @ [CHR 0x27])), m)
          else (Some (Wrap ''getting merge request'' err), m)
      | Inr mr \<Rightarrow>
     (case Retry env mrID mqRetryNow m of
        (Some err, m') \<Rightarrow>
          if err = ErrMRNotFailed
          then (Some (Errorf (''merge request '' @ [CHR 0x27] @ mrID @ [CHR 0x27]
                  @ '' has not failed (status: '' @ status_string (Status_req mr) @ '')'')), m')
          else (Some (Wrap ''retrying merge request'' err), m')
      | (None, m') \<Rightarrow> (None, m'))))"

text \<open>
  \<open>runMQReject\<close> (mq.go 586-612) for the arguments \<open>rigName\<close> and \<open>mrIDOrBranch\<close> and the
  flags \<open>--reason\<close> and \<open>--notify\<close>. On success the result is the record \<open>RejectMR\<close>
  returned, whose branch, worker and issue are printed.
\<close>

definition runMQReject ::
  "(string \<Rightarrow> error + string) \<Rightarrow> RefineryEnv \<Rightarrow> string \<Rightarrow> bool \<Rightarrow> string \<Rightarrow> string
     \<Rightarrow> Manager \<Rightarrow> (error + MergeRequest) \<times> Manager" where
  "runMQReject getRefineryManager env mqRejectReason mqRejectNotify rigName mrIDOrBranch m =
     (case getRefineryManager rigName of
        Inl err \<Rightarrow> (Inl err, m)
      | Inr mgr \<Rightarrow>
     (case RejectMR env mrIDOrBranch mqRejectReason mqRejectNotify m of
        (Inl err, m') \<Rightarrow> (Inl (Wrap ''rejecting MR'' err), m')
      | (Inr result, m') \<Rightarrow> (Inr result, m')))"

section \<open>An example queue, for evaluating retry and reject\<close>

text \<open>
  Two open merge requests of rig \<open>gastown\<close>: \<open>gt-mr-1\<close> failed with a conflict,
  \<open>gt-mr-2\<close> never failed. The mail collaborator is down: every \<open>Send\<close> fails.
\<close>

definition ex_failed :: MergeRequest where
  "ex_failed =
     \<lparr>ID_req = ''gt-mr-1'', Branch_req = ''polecat/Toast/gt-42'',
      Target_req = ''integration/gt-epic1'', IssueID_req = ''gt-42'', Worker_req = ''Toast'',
      Rig_req = ''gastown'', Priority_req = 3, Status_req = MROpen, BlockedBy_req = [],
      Error_req = ''merge conflict'', CreatedAt_req = ''2025-01-01T00:00:00Z'',
      Audit_req = []\<rparr>"

definition ex_fresh :: MergeRequest where
  "ex_fresh =
     \<lparr>ID_req = ''gt-mr-2'', Branch_req = ''polecat/Nux/gt-xyz'',
      Target_req = ''main'', IssueID_req = ''gt-xyz'', Worker_req = ''Nux'',
      Rig_req = ''gastown'', Priority_req = 2, Status_req = MROpen, BlockedBy_req = [],
      Error_req = [], CreatedAt_req = ''2025-01-02T00:00:00Z'', Audit_req = []\<rparr>"

definition ex_tracker :: "string \<Rightarrow> string option" where
  "ex_tracker i = (if i = ''gt-42'' \<or> i = ''gt-xyz'' then Some ''in_progress'' else None)"

definition ex_manager :: Manager where
  "ex_manager = \<lparr>queue = [ex_failed, ex_fresh], tracker = ex_tracker, mail_log = [],
                  mail_errors = []\<rparr>"

definition ex_refinery_env :: RefineryEnv where
  "ex_refinery_env =
     \<lparr>Send = (\<lambda>address subject body. Some (Failure ''mail transport is down'')),
      notice = (\<lambda>mr reason. (''Merge request rejected'', reason)),
      ProcessMR = (\<lambda>mr m. (None, m))\<rparr>"

definition ex_rejected :: MergeRequest where
  "ex_rejected = ex_fresh\<lparr>Status_req := MRRejected, Audit_req := [''Superseded'']\<rparr>"

section \<open>Properties of the branch parser\<close>

text \<open>
  Claim C3. A branch that starts with \<open>polecat/\<close> and that \<open>SplitN\<close> cuts into exactly
  three parts is parsed into worker = second part and issue = third part, whatever the
  issue pattern would find; the third part is the unsplit remainder and may contain \<open>/\<close>.
\<close>

theorem parseBranchName_polecat:
  assumes "HasPrefix branch ''polecat/''"
    and "SplitN branch (CHR ''/'') 3 = [p, w, i]"
  shows "parseBranchName branch = \<lparr>Branch = branch, Issue = i, Worker = w\<rparr>"
  using assms by (simp add: parseBranchName_def)

theorem parseBranchName_polecat_witness:
  "HasPrefix ''polecat/Nux/gt-xyz'' ''polecat/''
   \<and> SplitN ''polecat/Nux/gt-xyz'' (CHR ''/'') 3 = [''polecat'', ''Nux'', ''gt-xyz'']
   \<and> parseBranchName ''polecat/Nux/gt-xyz''
       = \<lparr>Branch = ''polecat/Nux/gt-xyz'', Issue = ''gt-xyz'', Worker = ''Nux''\<rparr>
   \<and> HasPrefix ''polecat/Nux/fix/gt-xyz'' ''polecat/''
   \<and> SplitN ''polecat/Nux/fix/gt-xyz'' (CHR ''/'') 3 = [''polecat'', ''Nux'', ''fix/gt-xyz'']
   \<and> parseBranchName ''polecat/Nux/fix/gt-xyz''
       = \<lparr>Branch = ''polecat/Nux/fix/gt-xyz'', Issue = ''fix/gt-xyz'', Worker = ''Nux''\<rparr>"
proof -
  have h1: "HasPrefix ''polecat/Nux/gt-xyz'' ''polecat/''"
    by (simp add: HasPrefix_def)
  have h2: "SplitN ''polecat/Nux/gt-xyz'' (CHR ''/'') 3 = [''polecat'', ''Nux'', ''gt-xyz'']"
    by (simp add: numeral_3_eq_3)
  have h3: "HasPrefix ''polecat/Nux/fix/gt-xyz'' ''polecat/''"
    by (simp add: HasPrefix_def)
  have h4: "SplitN ''polecat/Nux/fix/gt-xyz'' (CHR ''/'') 3
              = [''polecat'', ''Nux'', ''fix/gt-xyz'']"
    by (simp add: numeral_3_eq_3)
  show ?thesis
    using h1 h2 h3 h4 parseBranchName_polecat [OF h1 h2] parseBranchName_polecat [OF h3 h4]
    by (simp only: simp_thms)
qed

subsection \<open>The shape of a polecat branch\<close>

lemma SplitN_two:
  "SplitN s sep 2 = (if sep \<in> set s
     then [takeWhile (\<lambda>c. c \<noteq> sep) s, tl (dropWhile (\<lambda>c. c \<noteq> sep) s)] else [s])"
  by (simp add: numeral_2_eq_2)

lemma SplitN_three:
  "SplitN s sep 3 = (if sep \<in> set s
     then takeWhile (\<lambda>c. c \<noteq> sep) s # SplitN (tl (dropWhile (\<lambda>c. c \<noteq> sep) s)) sep 2
     else [s])"
  by (simp add: numeral_3_eq_3 numeral_2_eq_2)

lemma split_at_first:
  "sep \<in> set s \<Longrightarrow> s = takeWhile (\<lambda>c. c \<noteq> sep) s @ sep # tl (dropWhile (\<lambda>c. c \<noteq> sep) s)"
  by (induction s) auto

lemma takeWhile_sep: "sep \<notin> set w \<Longrightarrow> takeWhile (\<lambda>c. c \<noteq> sep) (w @ sep # i) = w"
  by (induction w) auto

lemma dropWhile_sep: "sep \<notin> set w \<Longrightarrow> dropWhile (\<lambda>c. c \<noteq> sep) (w @ sep # i) = sep # i"
  by (induction w) auto

text \<open>
  The guard of the first branch of \<open>parseBranchName\<close> holds exactly for the branches
  \<open>polecat/<worker>/<issue>\<close> whose worker part contains no \<open>/\<close>.
\<close>

lemma polecat_form_iff:
  "polecat_form branch
     \<longleftrightarrow> (\<exists>w i. branch = ''polecat/'' @ w @ ''/'' @ i \<and> CHR ''/'' \<notin> set w)"
proof
  assume "polecat_form branch"
  then have pre: "take (length ''polecat/'') branch = ''polecat/''"
    and len: "length (SplitN branch (CHR ''/'') 3) = 3"
    unfolding polecat_form_def HasPrefix_def by blast+
  define rest where "rest = drop (length ''polecat/'') branch"
  have "take (length ''polecat/'') branch @ rest = branch"
    unfolding rest_def by (rule append_take_drop_id)
  then have b: "branch = ''polecat/'' @ rest"
    unfolding pre by (rule sym)
  have "SplitN branch (CHR ''/'') 3 = ''polecat'' # SplitN rest (CHR ''/'') 2"
    by (subst b) (simp add: SplitN_three)
  with len have "length (SplitN rest (CHR ''/'') 2) = 2" by simp
  then have "CHR ''/'' \<in> set rest"
    by (simp add: SplitN_two split: if_splits)
  from split_at_first [OF this] b
  have "branch = ''polecat/'' @ takeWhile (\<lambda>c. c \<noteq> CHR ''/'') rest @ ''/''
                   @ tl (dropWhile (\<lambda>c. c \<noteq> CHR ''/'') rest)"
    by simp
  moreover have "CHR ''/'' \<notin> set (takeWhile (\<lambda>c. c \<noteq> CHR ''/'') rest)"
    by (auto dest: set_takeWhileD)
  ultimately show "\<exists>w i. branch = ''polecat/'' @ w @ ''/'' @ i \<and> CHR ''/'' \<notin> set w"
    by blast
next
  assume "\<exists>w i. branch = ''polecat/'' @ w @ ''/'' @ i \<and> CHR ''/'' \<notin> set w"
  then obtain w i where b: "branch = ''polecat/'' @ w @ ''/'' @ i" and w: "CHR ''/'' \<notin> set w"
    by blast
  have "SplitN (w @ CHR ''/'' # i) (CHR ''/'') 2 = [w, i]"
    using w by (simp add: SplitN_two takeWhile_sep dropWhile_sep)
  then have "SplitN branch (CHR ''/'') 3 = [''polecat'', w, i]"
    by (subst b) (simp add: SplitN_three)
  then show "polecat_form branch"
    by (simp add: polecat_form_def HasPrefix_def b)
qed

subsection \<open>The matcher only returns parts of the input that are in the language\<close>

lemma ms_sound: "\<forall>s' \<in> set (ms r s). \<exists>m. s = m @ s' \<and> matches r m"
proof (induction r s rule: ms.induct)
  case (1 c s)
  show ?case by (cases s) (auto intro: matches.intros)
next
  case (2 rs s)
  show ?case by (cases s) (auto intro: matches.intros)
next
  case (3 r1 r2 s)
  show ?case
  proof
    fix s' assume "s' \<in> set (ms (Seq r1 r2) s)"
    then obtain s1 where s1: "s1 \<in> set (ms r1 s)" and s': "s' \<in> set (ms r2 s1)"
      by auto
    from "3.IH"(1) s1 obtain m1 where m1: "s = m1 @ s1" "matches r1 m1" by blast
    from "3.IH"(2) [OF s1] s' obtain m2 where m2: "s1 = m2 @ s'" "matches r2 m2" by blast
    have "s = (m1 @ m2) @ s'" using m1 m2 by simp
    moreover have "matches (Seq r1 r2) (m1 @ m2)" using m1 m2 by (simp add: m_Seq)
    ultimately show "\<exists>m. s = m @ s' \<and> matches (Seq r1 r2) m" by blast
  qed
next
  case (4 r s)
  show ?case
  proof
    fix s' assume "s' \<in> set (ms (Opt r) s)"
    then consider "s' \<in> set (ms r s)" | "s' = s" by auto
    then show "\<exists>m. s = m @ s' \<and> matches (Opt r) m"
    proof cases
      case 1
      with "4.IH" obtain m where "s = m @ s'" "matches r m" by blast
      then show ?thesis by (blast intro: m_Opt_some)
    next
      case 2
      then have "s = [] @ s'" by simp
      then show ?thesis using m_Opt_none by blast
    qed
  qed
next
  case (5 r s)
  show ?case
  proof
    fix s' assume "s' \<in> set (ms (Plus r) s)"
    then have "s' \<in> set (concat (map (\<lambda>s''. (if length s'' < length s then ms (Plus r) s'' else [])
                 @ [s'']) (ms r s)))"
      by (subst (asm) ms.simps(5))
    then obtain s1 where s1: "s1 \<in> set (ms r s)"
      and alt: "(length s1 < length s \<and> s' \<in> set (ms (Plus r) s1)) \<or> s' = s1"
      by (auto simp del: ms.simps split: if_splits)
    from "5.IH"(1) s1 obtain m1 where m1: "s = m1 @ s1" "matches r m1" by blast
    from alt show "\<exists>m. s = m @ s' \<and> matches (Plus r) m"
    proof
      assume a: "length s1 < length s \<and> s' \<in> set (ms (Plus r) s1)"
      with "5.IH"(2) [OF s1] obtain m2 where m2: "s1 = m2 @ s'" "matches (Plus r) m2"
        by blast
      have "s = (m1 @ m2) @ s'" using m1 m2 by simp
      moreover have "matches (Plus r) (m1 @ m2)" using m1 m2 by (simp add: m_Plus_more)
      ultimately show ?thesis by blast
    next
      assume "s' = s1"
      with m1 show ?thesis by (blast intro: m_Plus_one)
    qed
  qed
qed

lemma FindString_sound:
  "FindString r s = Some m \<Longrightarrow> sublist m s \<and> matches r m"
proof (induction s)
  case Nil
  then obtain s' rest where ms: "ms r [] = s' # rest" and m: "m = []"
    by (auto split: list.splits)
  from ms have "s' \<in> set (ms r [])" by simp
  with ms_sound obtain m' where "[] = m' @ s'" "matches r m'" by blast
  then show ?case using m by simp
next
  case (Cons c cs)
  show ?case
  proof (cases "ms r (c # cs)")
    case Nil
    with Cons.prems have "FindString r cs = Some m" by simp
    with Cons.IH have "sublist m cs" "matches r m" by simp_all
    then show ?thesis by (simp add: sublist_Cons_right)
  next
    case (Cons s' rest)
    then have "s' \<in> set (ms r (c # cs))" by simp
    with ms_sound obtain m' where m': "c # cs = m' @ s'" "matches r m'" by blast
    from Cons Cons.prems have "m = take (length (c # cs) - length s') (c # cs)" by simp
    also have "\<dots> = m'" by (simp only: m') simp
    finally have "m = m'" .
    moreover have "sublist m' (m' @ s')" by (simp add: sublist_append_leftI)
    ultimately show ?thesis using m' by simp
  qed
qed

lemma FindString_None: "\<not> has_issue_token branch \<Longrightarrow> FindString issuePattern branch = None"
  unfolding has_issue_token_def using FindString_sound [of issuePattern branch]
  by (cases "FindString issuePattern branch") auto

lemma issue_token_hyphen: "matches issuePattern t \<Longrightarrow> CHR ''-'' \<in> set t"
  unfolding issuePattern_def by (auto elim!: matches_SeqE matches_LitE)

lemma sublist_set: "sublist t s \<Longrightarrow> set t \<subseteq> set s"
  by (auto simp: sublist_def)

lemma no_hyphen_no_token: "CHR ''-'' \<notin> set s \<Longrightarrow> \<not> has_issue_token s"
  unfolding has_issue_token_def using issue_token_hyphen sublist_set by blast

lemma parseBranchName_plain:
  "\<not> polecat_form branch \<Longrightarrow> \<not> has_issue_token branch
     \<Longrightarrow> parseBranchName branch = \<lparr>Branch = branch, Issue = [], Worker = []\<rparr>"
  by (auto simp: parseBranchName_def polecat_form_def FindStringSubmatch_def Let_def
        dest: FindString_None)

text \<open>
  Claim C2 (as amended). \<open>parseBranchName\<close> is a total function. When the branch neither
  has the \<open>polecat/<worker>/<issue>\<close> form nor contains a part matching the issue pattern,
  worker and issue are both empty. The branch \<open>feature/random-name\<close> is not such a branch:
  \<open>random-name\<close> matches the pattern (letters, hyphen, letters), so it is returned as the
  issue.
\<close>

theorem parseBranchName_no_issue:
  "(\<not> polecat_form branch \<and> \<not> has_issue_token branch
      \<longrightarrow> parseBranchName branch = \<lparr>Branch = branch, Issue = [], Worker = []\<rparr>)
   \<and> parseBranchName ''feature/random-name''
       = \<lparr>Branch = ''feature/random-name'', Issue = ''random-name'', Worker = []\<rparr>"
proof
  show "\<not> polecat_form branch \<and> \<not> has_issue_token branch
      \<longrightarrow> parseBranchName branch = \<lparr>Branch = branch, Issue = [], Worker = []\<rparr>"
    by (simp add: parseBranchName_plain)
  show "parseBranchName ''feature/random-name''
       = \<lparr>Branch = ''feature/random-name'', Issue = ''random-name'', Worker = []\<rparr>"
    by (simp add: parseBranchName_def HasPrefix_def FindStringSubmatch_def issuePattern_def
          in_class_def)
qed

theorem parseBranchName_no_issue_witness:
  "\<not> polecat_form ''feature/random'' \<and> \<not> has_issue_token ''feature/random''
   \<and> parseBranchName ''feature/random'' = \<lparr>Branch = ''feature/random'', Issue = [], Worker = []\<rparr>"
proof -
  have h1: "\<not> polecat_form ''feature/random''"
    by (simp add: polecat_form_def HasPrefix_def)
  have h2: "\<not> has_issue_token ''feature/random''"
    by (rule no_hyphen_no_token) simp
  from parseBranchName_no_issue [of "''feature/random''"] h1 h2 show ?thesis by blast
qed

text \<open>
  The example of the claim as first stated fails: for \<open>feature/random-name\<close> the issue
  is not empty.
\<close>

theorem parseBranchName_random_name_counterexample:
  "parseBranchName ''feature/random-name''
     \<noteq> \<lparr>Branch = ''feature/random-name'', Issue = [], Worker = []\<rparr>"
  by (simp add: parseBranchName_def HasPrefix_def FindStringSubmatch_def issuePattern_def
          in_class_def)

section \<open>Properties of the field codec\<close>

lemma Split_no_sep: "c \<notin> set l \<Longrightarrow> Split l c = [l]"
  by (induction l) auto

lemma Split_append: "c \<notin> set l \<Longrightarrow> Split (l @ c # rest) c = l # Split rest c"
  by (induction l) auto

lemma Split_Join:
  "ls \<noteq> [] \<Longrightarrow> \<forall>l \<in> set ls. c \<notin> set l \<Longrightarrow> Split (Join ls [c]) c = ls"
proof (induction ls "[c]" rule: Join.induct)
  case 1
  then show ?case by simp
next
  case (2 x)
  then show ?case by (simp add: Split_no_sep)
next
  case (3 x y ys)
  then show ?case by (simp add: Split_append)
qed

lemma scan_line_marker: "scan_line g marker_line = g"
  by (simp add: scan_line_def HasPrefix_def marker_line_def)

lemma scan_line_empty: "scan_line g [] = g"
  by (simp add: scan_line_def HasPrefix_def)

lemma scan_line_branch: "scan_line g (''branch'' @ '': '' @ v) = g\<lparr>Branch_mr := v\<rparr>"
  by (simp add: scan_line_def HasPrefix_def)

lemma scan_line_target: "scan_line g (''target'' @ '': '' @ v) = g\<lparr>Target_mr := v\<rparr>"
  by (simp add: scan_line_def HasPrefix_def)

lemma scan_line_source_issue:
  "scan_line g (''source_issue'' @ '': '' @ v) = g\<lparr>SourceIssue_mr := v\<rparr>"
  by (simp add: scan_line_def HasPrefix_def)

lemma scan_line_worker: "scan_line g (''worker'' @ '': '' @ v) = g\<lparr>Worker_mr := v\<rparr>"
  by (simp add: scan_line_def HasPrefix_def)

lemma scan_line_rig: "scan_line g (''rig'' @ '': '' @ v) = g\<lparr>Rig_mr := v\<rparr>"
  by (simp add: scan_line_def HasPrefix_def)

lemma foldl_field_line_branch:
  "foldl scan_line g (field_line ''branch'' v) = (if v = [] then g else g\<lparr>Branch_mr := v\<rparr>)"
  by (simp add: field_line_def scan_line_branch del: append.simps)

lemma foldl_field_line_target:
  "foldl scan_line g (field_line ''target'' v) = (if v = [] then g else g\<lparr>Target_mr := v\<rparr>)"
  by (simp add: field_line_def scan_line_target del: append.simps)

lemma foldl_field_line_source_issue:
  "foldl scan_line g (field_line ''source_issue'' v)
     = (if v = [] then g else g\<lparr>SourceIssue_mr := v\<rparr>)"
  by (simp add: field_line_def scan_line_source_issue del: append.simps)

lemma foldl_field_line_worker:
  "foldl scan_line g (field_line ''worker'' v) = (if v = [] then g else g\<lparr>Worker_mr := v\<rparr>)"
  by (simp add: field_line_def scan_line_worker del: append.simps)

lemma foldl_field_line_rig:
  "foldl scan_line g (field_line ''rig'' v) = (if v = [] then g else g\<lparr>Rig_mr := v\<rparr>)"
  by (simp add: field_line_def scan_line_rig del: append.simps)

lemma foldl_field_lines: "foldl scan_line no_fields (field_lines f) = f"
  unfolding field_lines_def foldl_append foldl_field_line_branch foldl_field_line_target
    foldl_field_line_source_issue foldl_field_line_worker foldl_field_line_rig
  by (cases f) (simp add: no_fields_def)

lemma field_line_Nil: "field_line key v = [] \<longleftrightarrow> v = []"
  by (simp add: field_line_def)

lemma field_lines_Nil: "field_lines f = [] \<Longrightarrow> f = no_fields"
  by (cases f) (simp add: field_lines_def field_line_Nil no_fields_def)

lemma field_line_no_newline:
  "single_line v \<Longrightarrow> CHR 0x0A \<notin> set key
     \<Longrightarrow> \<forall>l \<in> set (field_line key v). CHR 0x0A \<notin> set l"
  by (cases "v = []") (simp_all add: field_line_def single_line_def)

lemma field_lines_single:
  assumes "single_line_fields f"
  shows "\<forall>l \<in> set (field_lines f). CHR 0x0A \<notin> set l"
proof -
  have "\<forall>l \<in> set (field_line ''branch'' (Branch_mr f)). CHR 0x0A \<notin> set l"
    using assms by (intro field_line_no_newline) (simp_all add: single_line_fields_def)
  moreover have "\<forall>l \<in> set (field_line ''target'' (Target_mr f)). CHR 0x0A \<notin> set l"
    using assms by (intro field_line_no_newline) (simp_all add: single_line_fields_def)
  moreover have "\<forall>l \<in> set (field_line ''source_issue'' (SourceIssue_mr f)). CHR 0x0A \<notin> set l"
    using assms by (intro field_line_no_newline) (simp_all add: single_line_fields_def)
  moreover have "\<forall>l \<in> set (field_line ''worker'' (Worker_mr f)). CHR 0x0A \<notin> set l"
    using assms by (intro field_line_no_newline) (simp_all add: single_line_fields_def)
  moreover have "\<forall>l \<in> set (field_line ''rig'' (Rig_mr f)). CHR 0x0A \<notin> set l"
    using assms by (intro field_line_no_newline) (simp_all add: single_line_fields_def)
  ultimately show ?thesis
    unfolding field_lines_def set_append ball_Un by blast
qed

lemma marker_line_no_newline: "CHR 0x0A \<notin> set marker_line"
  by (simp add: marker_line_def)

lemma Split_Encode:
  assumes "single_line_fields f"
  shows "Split (Encode f) (CHR 0x0A)
           = marker_line # (if field_lines f = [] then [[]] else field_lines f)"
proof (cases "field_lines f")
  case Nil
  have "Split (Join [marker_line, []] [CHR 0x0A]) (CHR 0x0A) = [marker_line, []]"
    by (rule Split_Join) (simp_all add: marker_line_no_newline)
  moreover have "Encode f = Join [marker_line, []] [CHR 0x0A]"
    using Nil by (simp add: Encode_def FormatMRFields_def)
  ultimately show ?thesis using Nil by (simp del: Join.simps)
next
  case (Cons x xs)
  have "Split (Join (marker_line # x # xs) [CHR 0x0A]) (CHR 0x0A) = marker_line # x # xs"
  proof (rule Split_Join)
    show "marker_line # x # xs \<noteq> []" by simp
    from field_lines_single [OF assms] Cons
    show "\<forall>l \<in> set (marker_line # x # xs). CHR 0x0A \<notin> set l"
      by (simp add: marker_line_no_newline)
  qed
  moreover have "Encode f = Join (marker_line # x # xs) [CHR 0x0A]"
    using Cons by (simp add: Encode_def FormatMRFields_def)
  ultimately show ?thesis using Cons by (simp del: Join.simps)
qed

text \<open>
  Claim C6. For every field set whose five values are single-line (contain no newline),
  decoding the text that submission stores (the marker line, a newline, and
  \<open>FormatMRFields\<close> of the fields) with \<open>ParseMRFields\<close> gives the fields back, whatever
  the other attributes of the issue that carries the text.
\<close>

theorem codec_round_trip:
  assumes "single_line_fields f"
  shows "ParseMRFields (issue\<lparr>Description := Encode f\<rparr>) = Some f"
proof -
  let ?L = "if field_lines f = [] then [[]] else field_lines f"
  have fold: "foldl scan_line no_fields ?L = f"
    using foldl_field_lines [of f] field_lines_Nil [of f] by (auto simp: scan_line_empty)
  have "foldl scan_line no_fields (marker_line # ?L) = f"
    using fold by (simp only: foldl_Cons scan_line_marker)
  then show ?thesis
    by (simp add: ParseMRFields_def Split_Encode [OF assms] del: foldl_Cons)
qed

theorem codec_round_trip_witness:
  "single_line_fields ex_fields
   \<and> ParseMRFields (ex_source\<lparr>Description := Encode ex_fields\<rparr>) = Some ex_fields"
proof -
  have h: "single_line_fields ex_fields"
    by (simp add: single_line_fields_def single_line_def ex_fields_def)
  show ?thesis
    using h codec_round_trip [OF h, of ex_source] by (simp only: simp_thms)
qed

section \<open>Properties of gt mq submit\<close>

lemma ex_parse:
  "parseBranchName ''polecat/Toast/gt-42''
     = \<lparr>Branch = ''polecat/Toast/gt-42'', Issue = ''gt-42'', Worker = ''Toast''\<rparr>"
  by (simp add: parseBranchName_def HasPrefix_def numeral_3_eq_3)

lemma ex_submit:
  "runMqSubmit ex_flags ex_env [ex_source]
     = (Inr \<lparr>sent_fields = ex_fields, sent_opts = ex_opts 3, created = ex_mr 3\<rparr>,
        [ex_source, ex_mr 3])"
  by (simp add: runMqSubmit_def submitResolved_def ex_flags_def ex_env_def ex_parse Let_def
        ex_Show_def ex_Create_def ex_source_def ex_fields_def [symmetric] ex_opts_def ex_mr_def Encode_def)

subsection \<open>What a successful submission sent to the store\<close>

lemma runMqSubmit_Inr:
  assumes "runMqSubmit fl env st = (Inr r, st')"
  obtains townRoot rigName cwd branch where
    "FindFromCwdOrError env = Inr townRoot"
    "findCurrentRig env townRoot = Inr rigName"
    "Getwd env = Inr cwd"
    "mqSubmitBranch fl = [] \<and> CurrentBranch env = Inr branch
       \<or> mqSubmitBranch fl \<noteq> [] \<and> branch = mqSubmitBranch fl"
    "submitResolved fl env rigName branch st = (Inr r, st')"
  using assms unfolding runMqSubmit_def
  by (auto split: sum.splits if_splits)

lemma submitResolved_Inr:
  assumes "submitResolved fl env rigName branch st = (Inr r, st')"
  shows "branch \<noteq> ''main''" and "branch \<noteq> ''master''"
    and "SourceIssue_mr (sent_fields r) \<noteq> []"
    and "sent_fields r =
       \<lparr>Branch_mr = branch,
        Target_mr = (if mqSubmitEpic fl = [] then ''main'' else ''integration/'' @ mqSubmitEpic fl),
        SourceIssue_mr = (if mqSubmitIssue fl = [] then Issue (parseBranchName branch)
                          else mqSubmitIssue fl),
        Worker_mr = Worker (parseBranchName branch),
        Rig_mr = rigName\<rparr>"
    and "sent_opts r =
       \<lparr>Title_opt = ''Merge: '' @ SourceIssue_mr (sent_fields r),
        Type_opt = ''task'',
        Priority_opt =
          (if mqSubmitPriority fl \<ge> 0 then mqSubmitPriority fl
           else (case beads_Show env (SourceIssue_mr (sent_fields r)) st of
                   Inl err \<Rightarrow> 2 | Inr sourceIssue \<Rightarrow> Priority sourceIssue)),
        Description_opt = marker_line @ [CHR 0x0A] @ FormatMRFields (sent_fields r)\<rparr>"
    and "beads_Create env (sent_opts r) st = (Inr (created r), st')"
  using assms unfolding submitResolved_def Let_def
  by (auto split: sum.splits if_splits prod.splits)

lemma submit_success:
  assumes "runMqSubmit fl env st = (Inr r, st')"
  shows "sent_opts r =
       \<lparr>Title_opt = ''Merge: '' @ SourceIssue_mr (sent_fields r),
        Type_opt = ''task'',
        Priority_opt =
          (if mqSubmitPriority fl \<ge> 0 then mqSubmitPriority fl
           else (case beads_Show env (SourceIssue_mr (sent_fields r)) st of
                   Inl err \<Rightarrow> 2 | Inr sourceIssue \<Rightarrow> Priority sourceIssue)),
        Description_opt = marker_line @ [CHR 0x0A] @ FormatMRFields (sent_fields r)\<rparr>"
    and "beads_Create env (sent_opts r) st = (Inr (created r), st')"
proof -
  from assms obtain rigName branch
    where res: "submitResolved fl env rigName branch st = (Inr r, st')"
    by (rule runMqSubmit_Inr)
  show "sent_opts r =
       \<lparr>Title_opt = ''Merge: '' @ SourceIssue_mr (sent_fields r),
        Type_opt = ''task'',
        Priority_opt =
          (if mqSubmitPriority fl \<ge> 0 then mqSubmitPriority fl
           else (case beads_Show env (SourceIssue_mr (sent_fields r)) st of
                   Inl err \<Rightarrow> 2 | Inr sourceIssue \<Rightarrow> Priority sourceIssue)),
        Description_opt = marker_line @ [CHR 0x0A] @ FormatMRFields (sent_fields r)\<rparr>"
    by (rule submitResolved_Inr(5) [OF res])
  show "beads_Create env (sent_opts r) st = (Inr (created r), st')"
    by (rule submitResolved_Inr(6) [OF res])
qed

text \<open>The description sent is the encoding that the round-trip contract is about.\<close>

lemma submit_description:
  assumes "runMqSubmit fl env st = (Inr r, st')"
  shows "Description_opt (sent_opts r) = Encode (sent_fields r)"
  by (subst submit_success(1) [OF assms]) (simp add: Encode_def)

text \<open>
  Claim C5. A successful submission with \<open>--priority p\<close>, \<open>p \<ge> 0\<close>, sends priority \<open>p\<close> to
  the store. With the flag left at its negative default it sends the priority of the
  source issue when \<open>Show\<close> of the source issue succeeds, and 2 when \<open>Show\<close> fails.
\<close>

theorem submit_priority:
  assumes "runMqSubmit fl env st = (Inr r, st')"
  shows "beads_Create env (sent_opts r) st = (Inr (created r), st')
    \<and> (0 \<le> mqSubmitPriority fl \<longrightarrow> Priority_opt (sent_opts r) = mqSubmitPriority fl)
    \<and> (mqSubmitPriority fl < 0 \<longrightarrow>
         (\<forall>src. beads_Show env (SourceIssue_mr (sent_fields r)) st = Inr src
                 \<longrightarrow> Priority_opt (sent_opts r) = Priority src)
       \<and> (\<forall>e. beads_Show env (SourceIssue_mr (sent_fields r)) st = Inl e
                 \<longrightarrow> Priority_opt (sent_opts r) = 2))"
proof -
  note create = submit_success(2) [OF assms]
  have opts: "Priority_opt (sent_opts r) =
          (if mqSubmitPriority fl \<ge> 0 then mqSubmitPriority fl
           else (case beads_Show env (SourceIssue_mr (sent_fields r)) st of
                   Inl err \<Rightarrow> 2 | Inr sourceIssue \<Rightarrow> Priority sourceIssue))"
    by (subst submit_success(1) [OF assms]) simp
  show ?thesis using opts create by auto
qed

lemma ex_submit_unresolved:
  "runMqSubmit ex_flags ex_env []
     = (Inr \<lparr>sent_fields = ex_fields, sent_opts = ex_opts 2, created = ex_mr 2\<rparr>, [ex_mr 2])"
  by (simp add: runMqSubmit_def submitResolved_def ex_flags_def ex_env_def ex_parse Let_def
        ex_Show_def ex_Create_def ex_fields_def [symmetric] ex_opts_def ex_mr_def Encode_def)

lemma ex_submit_p0:
  "runMqSubmit ex_flags_p0 ex_env [ex_source]
     = (Inr \<lparr>sent_fields = ex_fields, sent_opts = ex_opts 0, created = ex_mr 0\<rparr>,
        [ex_source, ex_mr 0])"
  by (simp add: runMqSubmit_def submitResolved_def ex_flags_p0_def ex_flags_def ex_env_def
        ex_parse Let_def ex_Show_def ex_Create_def ex_source_def ex_fields_def [symmetric] ex_opts_def ex_mr_def
        Encode_def)

lemma ex_Show_source: "beads_Show ex_env ''gt-42'' [ex_source] = Inr ex_source"
  by (simp add: ex_env_def ex_Show_def ex_source_def)

lemma ex_Show_nothing: "beads_Show ex_env ''gt-42'' [] = Inl (Failure ''issue not found'')"
  by (simp add: ex_env_def ex_Show_def)

theorem submit_priority_witness:
  "runMqSubmit ex_flags ex_env [ex_source]
     = (Inr \<lparr>sent_fields = ex_fields, sent_opts = ex_opts 3, created = ex_mr 3\<rparr>,
        [ex_source, ex_mr 3])
   \<and> mqSubmitPriority ex_flags < 0
   \<and> beads_Show ex_env ''gt-42'' [ex_source] = Inr ex_source
   \<and> Priority ex_source = 3
   \<and> Priority_opt (ex_opts 3) = 3
   \<and> runMqSubmit ex_flags ex_env []
     = (Inr \<lparr>sent_fields = ex_fields, sent_opts = ex_opts 2, created = ex_mr 2\<rparr>, [ex_mr 2])
   \<and> beads_Show ex_env ''gt-42'' [] = Inl (Failure ''issue not found'')
   \<and> Priority_opt (ex_opts 2) = 2
   \<and> runMqSubmit ex_flags_p0 ex_env [ex_source]
     = (Inr \<lparr>sent_fields = ex_fields, sent_opts = ex_opts 0, created = ex_mr 0\<rparr>,
        [ex_source, ex_mr 0])
   \<and> mqSubmitPriority ex_flags_p0 = 0
   \<and> Priority_opt (ex_opts 0) = 0"
proof -
  have neg: "mqSubmitPriority ex_flags < 0" by (simp add: ex_flags_def)
  have zero: "mqSubmitPriority ex_flags_p0 = 0" by (simp add: ex_flags_p0_def)
  have src: "Priority ex_source = 3" by (simp add: ex_source_def)
  have f: "SourceIssue_mr ex_fields = ''gt-42''" by (simp add: ex_fields_def)
  from submit_priority [OF ex_submit] neg ex_Show_source f src
  have p3: "Priority_opt (ex_opts 3) = 3" by simp
  from submit_priority [OF ex_submit_unresolved] neg ex_Show_nothing f
  have p2: "Priority_opt (ex_opts 2) = 2" by simp
  from submit_priority [OF ex_submit_p0] zero
  have p0: "Priority_opt (ex_opts 0) = 0" by simp
  show ?thesis
    using ex_submit ex_submit_unresolved ex_submit_p0 neg zero src ex_Show_source
      ex_Show_nothing p3 p2 p0
    by (simp only: simp_thms)
qed

text \<open>
  Claim C10. Every issue \<open>runMqSubmit\<close> creates is sent to the store with the generic
  type \<open>task\<close>, never \<open>merge-request\<close>; its description is the line
  \<open>type: merge-request\<close>, a newline, and the encoded fields, so that the marker is the
  first line of the description; the title is \<open>Merge: \<close> and the source issue.
\<close>

theorem submit_creates_task:
  assumes "runMqSubmit fl env st = (Inr r, st')"
  shows "beads_Create env (sent_opts r) st = (Inr (created r), st')
    \<and> Type_opt (sent_opts r) = ''task''
    \<and> Type_opt (sent_opts r) \<noteq> ''merge-request''
    \<and> Description_opt (sent_opts r)
        = ''type: merge-request'' @ [CHR 0x0A] @ FormatMRFields (sent_fields r)
    \<and> hd (Split (Description_opt (sent_opts r)) (CHR 0x0A)) = ''type: merge-request''
    \<and> Title_opt (sent_opts r) = ''Merge: '' @ SourceIssue_mr (sent_fields r)"
proof -
  note opts = submit_success(1) [OF assms]
  note create = submit_success(2) [OF assms]
  have d: "Description_opt (sent_opts r)
             = marker_line @ CHR 0x0A # FormatMRFields (sent_fields r)"
    by (subst opts) simp
  have "Split (Description_opt (sent_opts r)) (CHR 0x0A)
          = marker_line # Split (FormatMRFields (sent_fields r)) (CHR 0x0A)"
    unfolding d by (rule Split_append) (rule marker_line_no_newline)
  then have h: "hd (Split (Description_opt (sent_opts r)) (CHR 0x0A)) = marker_line"
    by simp
  have t: "Type_opt (sent_opts r) = ''task''" by (subst opts) simp
  have ti: "Title_opt (sent_opts r) = ''Merge: '' @ SourceIssue_mr (sent_fields r)"
    by (subst opts) simp
  show ?thesis
    using create t ti d h by (simp add: marker_line_def)
qed

theorem submit_creates_task_witness:
  "runMqSubmit ex_flags ex_env [ex_source]
     = (Inr \<lparr>sent_fields = ex_fields, sent_opts = ex_opts 3, created = ex_mr 3\<rparr>,
        [ex_source, ex_mr 3])
   \<and> Type_opt (ex_opts 3) = ''task''
   \<and> hd (Split (Description_opt (ex_opts 3)) (CHR 0x0A)) = ''type: merge-request''
   \<and> Type (ex_mr 3) = ''task''"
proof -
  have "Type (ex_mr 3) = ''task''" by (simp add: ex_mr_def)
  with submit_creates_task [OF ex_submit] ex_submit show ?thesis by simp
qed





section \<open>Properties of gt mq list\<close>

lemma row_status_listRow: "row_status (listRow issue) = displayStatus issue"
  by (simp add: listRow_def Let_def)

text \<open>
  Claim C4 (as amended). The status shown in a row of the list is: the stored status
  itself when that is \<open>closed\<close>, \<open>rejected\<close> or \<open>in_progress\<close>; \<open>blocked\<close> when the stored
  status is \<open>open\<close> and the blocker list is non-empty or the blocker count is positive;
  \<open>ready\<close> when the stored status is \<open>open\<close>, the blocker list is empty and the blocker
  count is not positive.
\<close>

theorem display_status_cases:
  "(Status issue \<in> {''closed'', ''rejected'', ''in_progress''}
      \<longrightarrow> row_status (listRow issue) = Status issue)
   \<and> (Status issue = ''open'' \<and> (BlockedBy issue \<noteq> [] \<or> BlockedByCount issue > 0)
      \<longrightarrow> row_status (listRow issue) = ''blocked'')
   \<and> (Status issue = ''open'' \<and> BlockedBy issue = [] \<and> BlockedByCount issue \<le> 0
      \<longrightarrow> row_status (listRow issue) = ''ready'')"
  by (auto simp: row_status_listRow displayStatus_def)

theorem display_status_cases_witness:
  "Status ex_source = ''in_progress'' \<and> row_status (listRow ex_source) = ''in_progress''
   \<and> Status ex_blocked = ''open'' \<and> BlockedBy ex_blocked \<noteq> []
   \<and> row_status (listRow ex_blocked) = ''blocked''
   \<and> Status ex_counted = ''open'' \<and> BlockedByCount ex_counted > 0
   \<and> row_status (listRow ex_counted) = ''blocked''
   \<and> Status (ex_mr 2) = ''open'' \<and> BlockedBy (ex_mr 2) = [] \<and> BlockedByCount (ex_mr 2) \<le> 0
   \<and> row_status (listRow (ex_mr 2)) = ''ready''"
proof -
  have s: "Status ex_source = ''in_progress''" by (simp add: ex_source_def)
  have b: "Status ex_blocked = ''open''" "BlockedBy ex_blocked \<noteq> []"
    by (simp_all add: ex_blocked_def ex_mr_def)
  have c: "Status ex_counted = ''open''" "BlockedByCount ex_counted > 0"
    by (simp_all add: ex_counted_def ex_mr_def)
  have m: "Status (ex_mr 2) = ''open''" "BlockedBy (ex_mr 2) = []"
    "BlockedByCount (ex_mr 2) \<le> 0"
    by (simp_all add: ex_mr_def)
  from display_status_cases [of ex_source] s
  have r1: "row_status (listRow ex_source) = ''in_progress''" by simp
  from display_status_cases [of ex_blocked] b
  have r2: "row_status (listRow ex_blocked) = ''blocked''" by simp
  from display_status_cases [of ex_counted] c
  have r3: "row_status (listRow ex_counted) = ''blocked''" by simp
  from display_status_cases [of "ex_mr 2"] m
  have r4: "row_status (listRow (ex_mr 2)) = ''ready''" by simp
  show ?thesis using s b c m r1 r2 r3 r4 by (simp only: simp_thms)
qed

text \<open>
  The claim as first stated fails for an open issue whose blocker list is empty and whose
  blocker count is 1: it is shown as \<open>blocked\<close>, not as \<open>ready\<close>.
\<close>

theorem display_status_count_counterexample:
  "Status ex_counted = ''open'' \<and> BlockedBy ex_counted = []
   \<and> row_status (listRow ex_counted) = ''blocked''
   \<and> row_status (listRow ex_counted) \<noteq> ''ready''"
  by (simp add: row_status_listRow displayStatus_def ex_counted_def ex_mr_def)

subsection \<open>Submission followed by the ready listing\<close>

lemma ready_listing_type:
  assumes "mqListReady lf"
    and "listFiltered grm lf rigName lenv st = Inr filtered"
  shows "\<forall>i \<in> set filtered. Type i = ''merge-request''"
  using assms unfolding listFiltered_def Let_def
  by (auto split: sum.splits if_splits)

text \<open>
  Whatever the store does: an issue that carries the type a successful submission asked
  for is not among the issues the ready listing prints.
\<close>

lemma submitted_type_not_listed:
  assumes "runMqSubmit fl env st = (Inr r, st')"
    and "Type i = Type_opt (sent_opts r)"
    and "mqListReady lf"
    and "listFiltered grm lf rigName lenv st'' = Inr filtered"
  shows "i \<notin> set filtered"
proof
  assume "i \<in> set filtered"
  with ready_listing_type [OF assms(3,4)] have "Type i = ''merge-request''" by blast
  moreover have "Type_opt (sent_opts r) = ''task''"
    by (subst submit_success(1) [OF assms(1)]) simp
  ultimately show False using assms(2) by simp
qed

lemma ex_Ready_after_submit:
  "beads_Ready ex_list_env [ex_source, ex_mr 3] = Inr [ex_mr 3]"
  by (simp add: ex_list_env_def ex_Ready_def ex_source_def ex_mr_def)

text \<open>
  Claim C1, evaluated. \<open>gt mq submit --epic gt-epic1\<close> on branch \<open>polecat/Toast/gt-42\<close>
  succeeds and the store holds the new issue, which the store reports as ready (open,
  no blockers); the \<open>gt mq list gastown --ready\<close> that follows prints the empty queue.
  The new issue carries the type \<open>task\<close> that the submission asked for, and the ready
  listing keeps only issues of type \<open>merge-request\<close>.
\<close>

theorem submit_then_list_ready:
  "runMqSubmit ex_flags ex_env [ex_source]
     = (Inr \<lparr>sent_fields = ex_fields, sent_opts = ex_opts 3, created = ex_mr 3\<rparr>,
        [ex_source, ex_mr 3])
   \<and> beads_Ready ex_list_env [ex_source, ex_mr 3] = Inr [ex_mr 3]
   \<and> Type (ex_mr 3) = ''task''
   \<and> runMQList ex_getRefineryManager ex_ready_flags ''gastown'' ex_list_env
        [ex_source, ex_mr 3] = Inr (Table [])"
proof -
  have t: "Type (ex_mr 3) = ''task''" by (simp add: ex_mr_def)
  have "runMQList ex_getRefineryManager ex_ready_flags ''gastown'' ex_list_env
        [ex_source, ex_mr 3] = Inr (Table [])"
    by (simp add: runMQList_def listFiltered_def ex_getRefineryManager_def
          ex_ready_flags_def ex_Ready_after_submit t Let_def)
  with ex_submit ex_Ready_after_submit t show ?thesis by (simp only: simp_thms)
qed

section \<open>Properties of gt mq retry\<close>

lemma GetMR_absent:
  "\<forall>mr \<in> set (queue m). ID_req mr \<noteq> mrID \<Longrightarrow> GetMR mrID m = Inl ErrMRNotFound"
  by (simp add: GetMR_def find_None_iff split: option.splits)

lemma GetMR_cases: "GetMR mrID m = Inl e \<Longrightarrow> e = ErrMRNotFound"
  by (simp add: GetMR_def split: option.splits)

lemma Retry_absent: "GetMR mrID m = Inl e \<Longrightarrow> Retry env mrID now m = (Some e, m)"
  by (simp add: Retry_def)

lemma Retry_not_failed:
  "GetMR mrID m = Inr mr \<Longrightarrow> \<not> (Status_req mr = MROpen \<and> Error_req mr \<noteq> [])
     \<Longrightarrow> Retry env mrID now m = (Some ErrMRNotFailed, m)"
  by (auto simp: Retry_def)

lemma Retry_None:
  "Retry env mrID now m = (None, m')
     \<Longrightarrow> \<exists>mr. GetMR mrID m = Inr mr \<and> Status_req mr = MROpen \<and> Error_req mr \<noteq> []"
  by (auto simp: Retry_def split: sum.splits if_splits)

text \<open>
  Claim C8. Once the refinery manager of the rig is found: when no MR has the
  identifier, \<open>Retry\<close> fails with \<open>NotFound\<close> and the command returns the not-found error;
  when the MR exists and its stored status is not \<open>open\<close> with a non-empty error,
  \<open>Retry\<close> fails with \<open>NotFailed\<close> and the command returns the has-not-failed error,
  naming the stored status; in both cases nothing is changed. The command succeeds only
  if the MR was open with a non-empty error.
\<close>

theorem retry_preconditions:
  assumes "getRefineryManager rigName = Inr mgr"
  shows
    "((\<forall>mr \<in> set (queue m). ID_req mr \<noteq> mrID) \<longrightarrow>
        Retry env mrID now m = (Some ErrMRNotFound, m)
        \<and> runMQRetry getRefineryManager env now rigName mrID m
            = (Some (Errorf (''merge request '' @ [CHR 0x27] @ mrID @ [CHR 0x27]
                  @ '' not found in rig '' @ [CHR 0x27] @ rigName @ [CHR 0x27])), m))
     \<and> (\<forall>mr. GetMR mrID m = Inr mr \<and> \<not> (Status_req mr = MROpen \<and> Error_req mr \<noteq> []) \<longrightarrow>
        Retry env mrID now m = (Some ErrMRNotFailed, m)
        \<and> runMQRetry getRefineryManager env now rigName mrID m
            = (Some (Errorf (''merge request '' @ [CHR 0x27] @ mrID @ [CHR 0x27]
                  @ '' has not failed (status: '' @ status_string (Status_req mr) @ '')'')), m))
     \<and> (fst (runMQRetry getRefineryManager env now rigName mrID m) = None \<longrightarrow>
        (\<exists>mr. GetMR mrID m = Inr mr \<and> Status_req mr = MROpen \<and> Error_req mr \<noteq> []))"
proof (intro conjI impI allI)
  assume "\<forall>mr \<in> set (queue m). ID_req mr \<noteq> mrID"
  then have g: "GetMR mrID m = Inl ErrMRNotFound" by (rule GetMR_absent)
  then show "Retry env mrID now m = (Some ErrMRNotFound, m)" by (rule Retry_absent)
  from g assms show "runMQRetry getRefineryManager env now rigName mrID m
            = (Some (Errorf (''merge request '' @ [CHR 0x27] @ mrID @ [CHR 0x27]
                  @ '' not found in rig '' @ [CHR 0x27] @ rigName @ [CHR 0x27])), m)"
    by (simp add: runMQRetry_def)
next
  fix mr
  assume a: "GetMR mrID m = Inr mr \<and> \<not> (Status_req mr = MROpen \<and> Error_req mr \<noteq> [])"
  then have r: "Retry env mrID now m = (Some ErrMRNotFailed, m)"
    using Retry_not_failed [of mrID m mr env now] by blast
  then show "Retry env mrID now m = (Some ErrMRNotFailed, m)" .
  from a r assms show "runMQRetry getRefineryManager env now rigName mrID m
            = (Some (Errorf (''merge request '' @ [CHR 0x27] @ mrID @ [CHR 0x27]
                  @ '' has not failed (status: '' @ status_string (Status_req mr) @ '')'')), m)"
    by (simp add: runMQRetry_def)
next
  assume n: "fst (runMQRetry getRefineryManager env now rigName mrID m) = None"
  then obtain m' where "Retry env mrID now m = (None, m')"
    using assms unfolding runMQRetry_def
    by (auto split: sum.splits if_splits prod.splits option.splits)
  then show "\<exists>mr. GetMR mrID m = Inr mr \<and> Status_req mr = MROpen \<and> Error_req mr \<noteq> []"
    by (rule Retry_None)
qed

lemma ex_grm: "ex_getRefineryManager ''gastown'' = Inr ''/town/gastown''"
  by (simp add: ex_getRefineryManager_def)

theorem retry_preconditions_witness:
  "''gt-mr-404'' \<notin> set (map ID_req (queue ex_manager))
   \<and> fst (Retry ex_refinery_env ''gt-mr-404'' False ex_manager) = Some ErrMRNotFound
   \<and> GetMR ''gt-mr-2'' ex_manager = Inr ex_fresh
   \<and> Status_req ex_fresh = MROpen \<and> Error_req ex_fresh = []
   \<and> Retry ex_refinery_env ''gt-mr-2'' False ex_manager = (Some ErrMRNotFailed, ex_manager)
   \<and> fst (runMQRetry ex_getRefineryManager ex_refinery_env False ''gastown'' ''gt-mr-1''
            ex_manager) = None
   \<and> GetMR ''gt-mr-1'' ex_manager = Inr ex_failed
   \<and> Error_req ex_failed = ''merge conflict''"
proof -
  have absent: "\<forall>mr \<in> set (queue ex_manager). ID_req mr \<noteq> ''gt-mr-404''"
    by (simp add: ex_manager_def ex_failed_def ex_fresh_def)
  have fresh: "GetMR ''gt-mr-2'' ex_manager = Inr ex_fresh"
    by (simp add: GetMR_def ex_manager_def ex_failed_def ex_fresh_def)
  have fresh': "Status_req ex_fresh = MROpen" "Error_req ex_fresh = []"
    by (simp_all add: ex_fresh_def)
  have failed: "GetMR ''gt-mr-1'' ex_manager = Inr ex_failed"
    by (simp add: GetMR_def ex_manager_def ex_failed_def)
  have failed': "Error_req ex_failed = ''merge conflict''"
    by (simp add: ex_failed_def)
  have ok: "fst (runMQRetry ex_getRefineryManager ex_refinery_env False ''gastown'' ''gt-mr-1''
            ex_manager) = None"
    by (simp add: runMQRetry_def ex_grm failed Retry_def ex_failed_def Let_def)
  from retry_preconditions [where getRefineryManager = ex_getRefineryManager
      and rigName = "''gastown''" and m = ex_manager and mrID = "''gt-mr-404''"
      and env = ex_refinery_env and now = False, OF ex_grm] absent
  have r1: "fst (Retry ex_refinery_env ''gt-mr-404'' False ex_manager) = Some ErrMRNotFound"
    by simp
  from retry_preconditions [where getRefineryManager = ex_getRefineryManager
      and rigName = "''gastown''" and m = ex_manager and mrID = "''gt-mr-2''"
      and env = ex_refinery_env and now = False, OF ex_grm]
    fresh fresh'
  have r2: "Retry ex_refinery_env ''gt-mr-2'' False ex_manager
              = (Some ErrMRNotFailed, ex_manager)"
    by simp
  have absent': "''gt-mr-404'' \<notin> set (map ID_req (queue ex_manager))"
    by (simp add: ex_manager_def ex_failed_def ex_fresh_def)
  show ?thesis
    using absent' fresh fresh' failed failed' ok r1 r2 by (simp only: simp_thms fst_conv)
qed

section \<open>Properties of gt mq reject\<close>

lemma find_putMR:
  "mr \<in> set q \<Longrightarrow> ID_req mr = k \<Longrightarrow> ID_req mr' = k
     \<Longrightarrow> find (\<lambda>x. ID_req x = k) (map (\<lambda>x. if ID_req x = k then mr' else x) q) = Some mr'"
  by (induction q) auto

lemma find_Some_mem: "find P xs = Some x \<Longrightarrow> x \<in> set xs"
  by (induction xs) (auto split: if_splits)

lemma FindMR_mem: "FindMR idOrBranch m = Some mr \<Longrightarrow> mr \<in> set (queue m)"
  by (auto simp: FindMR_def split: option.splits dest: find_Some_mem)

lemma GetMR_putMR:
  assumes "mr \<in> set (queue m)" and "ID_req mr' = ID_req mr"
  shows "GetMR (ID_req mr) (putMR mr' m) = Inr mr'"
proof -
  have "find (\<lambda>x. ID_req x = ID_req mr)
          (map (\<lambda>x. if ID_req x = ID_req mr then mr' else x) (queue m)) = Some mr'"
    using assms by (intro find_putMR) simp_all
  then show ?thesis using assms(2) by (simp add: GetMR_def putMR_def)
qed

lemma RejectMR_Inr:
  assumes "RejectMR env idOrBranch reason notify m = (Inr result, m')"
  obtains mr where "FindMR idOrBranch m = Some mr"
    and "result = mr\<lparr>Status_req := MRRejected, Audit_req := Audit_req mr @ [reason]\<rparr>"
    and "queue m' = queue (putMR result m)"
    and "tracker m' = tracker m"
    and "mail_log m' = mail_log m
           @ (if notify then [(worker_address mr, fst (notice env result reason),
                               snd (notice env result reason))] else [])"
  using assms unfolding RejectMR_def Let_def
  by (auto simp: putMR_def worker_address_def split: option.splits if_splits)

text \<open>
  Claim C9. After a successful \<open>gt mq reject\<close>, for the MR that \<open>RejectMR\<close> resolved (by
  identifier or by exact branch match): its stored record is the old one with status
  \<open>rejected\<close> and the reason appended to the audit trail, the \<open>error\<close> field being as it
  was; the status of every issue in the tracker, the source issue included, is
  unchanged; with \<open>notify\<close> exactly one dispatch, to the address of the MR's worker, has
  been added to the mail log, and without \<open>notify\<close> none. All this holds whatever \<open>Send\<close>
  returns: a failed dispatch leaves the rejection in place.
\<close>

theorem reject_semantics:
  assumes "runMQReject getRefineryManager env reason notify rigName idOrBranch m
             = (Inr result, m')"
  shows "\<exists>mr. FindMR idOrBranch m = Some mr
      \<and> result = mr\<lparr>Status_req := MRRejected, Audit_req := Audit_req mr @ [reason]\<rparr>
      \<and> GetMR (ID_req mr) m' = Inr result
      \<and> Status_req result = MRRejected
      \<and> Error_req result = Error_req mr
      \<and> tracker m' = tracker m
      \<and> mail_log m' = mail_log m
           @ (if notify then [(worker_address mr, fst (notice env result reason),
                               snd (notice env result reason))] else [])"
proof -
  from assms have "RejectMR env idOrBranch reason notify m = (Inr result, m')"
    unfolding runMQReject_def by (auto split: sum.splits prod.splits)
  then obtain mr where f: "FindMR idOrBranch m = Some mr"
    and r: "result = mr\<lparr>Status_req := MRRejected, Audit_req := Audit_req mr @ [reason]\<rparr>"
    and q: "queue m' = queue (putMR result m)"
    and t: "tracker m' = tracker m"
    and l: "mail_log m' = mail_log m
           @ (if notify then [(worker_address mr, fst (notice env result reason),
                               snd (notice env result reason))] else [])"
    by (rule RejectMR_Inr)
  have "GetMR (ID_req mr) (putMR result m) = Inr result"
    using FindMR_mem [OF f] r by (intro GetMR_putMR) simp_all
  then have g: "GetMR (ID_req mr) m' = Inr result"
    using q by (simp add: GetMR_def)
  have "Status_req result = MRRejected" "Error_req result = Error_req mr"
    using r by simp_all
  with f r g t l show ?thesis by blast
qed

lemma ex_reject:
  "runMQReject ex_getRefineryManager ex_refinery_env ''Superseded'' True ''gastown''
       ''polecat/Nux/gt-xyz'' ex_manager
     = (Inr ex_rejected,
        \<lparr>queue = [ex_failed, ex_rejected], tracker = ex_tracker,
         mail_log = [(''gastown/polecats/Nux'', ''Merge request rejected'', ''Superseded'')],
         mail_errors = [Failure ''mail transport is down'']\<rparr>)"
  by (simp add: runMQReject_def ex_grm RejectMR_def FindMR_def ex_manager_def ex_failed_def
        ex_fresh_def ex_rejected_def putMR_def Let_def worker_address_def ex_refinery_env_def)

theorem reject_semantics_witness:
  "runMQReject ex_getRefineryManager ex_refinery_env ''Superseded'' True ''gastown''
       ''polecat/Nux/gt-xyz'' ex_manager
     = (Inr ex_rejected,
        \<lparr>queue = [ex_failed, ex_rejected], tracker = ex_tracker,
         mail_log = [(''gastown/polecats/Nux'', ''Merge request rejected'', ''Superseded'')],
         mail_errors = [Failure ''mail transport is down'']\<rparr>)
   \<and> Send ex_refinery_env ''gastown/polecats/Nux'' ''Merge request rejected'' ''Superseded''
       = Some (Failure ''mail transport is down'')
   \<and> Status_req ex_rejected = MRRejected
   \<and> Error_req ex_rejected = []
   \<and> tracker ex_manager ''gt-xyz'' = Some ''in_progress''"
proof -
  have s: "Send ex_refinery_env ''gastown/polecats/Nux'' ''Merge request rejected''
             ''Superseded'' = Some (Failure ''mail transport is down'')"
    by (simp add: ex_refinery_env_def)
  have t: "tracker ex_manager ''gt-xyz'' = Some ''in_progress''"
    by (simp add: ex_manager_def ex_tracker_def)
  have e: "Error_req ex_rejected = []" by (simp add: ex_rejected_def ex_fresh_def)
  from reject_semantics [OF ex_reject]
  have "Status_req ex_rejected = MRRejected" by blast
  with ex_reject s t e show ?thesis by (simp only: simp_thms)
qed

end
